theory Spec2Isabelle
  imports Complex_Main
begin

section \<open>Hotel manager: the Flask handlers of hotel.py over an explicit store\<close>

text \<open>
  The program is a single Flask module over an SQLite database with three tables
  (rooms, guests, bookings). Every view function reads the request, runs a few SQL
  statements and commits. The model passes the database explicitly: a view function
  takes the store and the request's values and returns the new store and the response.

  Conventions of the model:
  \<^item> a table is the list of its rows, in insertion order; an UPDATE maps over the rows
    that satisfy its WHERE clause, a SELECT ... fetchone() is \<open>find\<close>;
  \<^item> the status columns carry a CHECK constraint that admits only the listed literals and
    the code writes only such literals, so they are datatypes;
  \<^item> Python's float (the REAL columns) is modelled by \<open>real\<close>: exact arithmetic, without
    the binary rounding of a double and without nan and the infinities;
  \<^item> a character is a code point below 256;
  \<^item> the column created_at (CURRENT_TIMESTAMP) is left out: only the dashboard counts
    read it.
\<close>

subsection \<open>Calendar dates (datetime.date)\<close>

record date =
  year :: int
  month :: int
  day :: int

definition is_leap :: "int \<Rightarrow> bool" where
  "is_leap y = (y mod 4 = 0 \<and> (y mod 100 \<noteq> 0 \<or> y mod 400 = 0))"

definition days_in_month :: "int \<Rightarrow> int \<Rightarrow> int" where
  "days_in_month y m =
     (if m = 2 \<and> is_leap y then 29
      else [31, 28, 31, 30, 31, 30, 31, 31, 30, 31, 30, 31] ! nat (m - 1))"

definition days_before_year :: "int \<Rightarrow> int" where
  "days_before_year y =
     (let y1 = y - 1 in y1 * 365 + y1 div 4 - y1 div 100 + y1 div 400)"

definition days_before_month :: "int \<Rightarrow> int \<Rightarrow> int" where
  "days_before_month y m =
     [0, 31, 59, 90, 120, 151, 181, 212, 243, 273, 304, 334] ! nat (m - 1)
       + (if m > 2 \<and> is_leap y then 1 else 0)"

text \<open>The constructor \<open>date(year, month, day)\<close> raises ValueError outside these ranges
  (MINYEAR is 1, MAXYEAR is 9999).\<close>

definition valid_date :: "int \<Rightarrow> int \<Rightarrow> int \<Rightarrow> bool" where
  "valid_date y m d =
     (1 \<le> y \<and> y \<le> 9999 \<and> 1 \<le> m \<and> m \<le> 12 \<and> 1 \<le> d \<and> d \<le> days_in_month y m)"

definition make_date :: "int \<Rightarrow> int \<Rightarrow> int \<Rightarrow> date option" where
  "make_date y m d =
     (if valid_date y m d then Some \<lparr>year = y, month = m, day = d\<rparr> else None)"

definition toordinal :: "date \<Rightarrow> int" where
  "toordinal dt = days_before_year (year dt) + days_before_month (year dt) (month dt) + day dt"

text \<open>\<open>(d2 - d1).days\<close> of two dates.\<close>

definition days_between :: "date \<Rightarrow> date \<Rightarrow> int" where
  "days_between d2 d1 = toordinal d2 - toordinal d1"

text \<open>\<open>d2 > d1\<close> on dates compares year, month and day in this order.\<close>

definition date_gt :: "date \<Rightarrow> date \<Rightarrow> bool" where
  "date_gt d2 d1 =
     (year d2 > year d1 \<or>
      (year d2 = year d1 \<and>
        (month d2 > month d1 \<or> (month d2 = month d1 \<and> day d2 > day d1))))"

subsection \<open>datetime.strptime(s, "%Y-%m-%d").date()\<close>

text \<open>
  strptime turns the format into the regular expression
  \<^verbatim>\<open>(?P<Y>\d\d\d\d)-(?P<m>1[0-2]|0[1-9]|[1-9])-(?P<d>3[01]|[12]\d|0[1-9]|[1-9]| [1-9])\<close>,
  matches it at the start of the string, raises ValueError when it does not match or when
  text remains after the match, and then builds the date, which raises ValueError for a
  day that the month does not have. Each matcher below returns the number read and the
  rest of the string; the alternatives are tried in the order of the expression. No
  alternative of the month can succeed after an earlier one has matched and the rest has
  failed (the next character is then a digit, not the hyphen), so no backtracking is
  modelled. A call that raises is \<open>None\<close>; so is a call on a missing form field (TypeError).
\<close>

definition in_range :: "char \<Rightarrow> char \<Rightarrow> char \<Rightarrow> bool" where
  "in_range lo hi c = ((of_char lo :: nat) \<le> of_char c \<and> (of_char c :: nat) \<le> of_char hi)"

definition is_digit :: "char \<Rightarrow> bool" where
  "is_digit c = in_range CHR ''0'' CHR ''9'' c"

definition digit_val :: "char \<Rightarrow> int" where
  "digit_val c = int (of_char c) - 48"

fun match_Y :: "string \<Rightarrow> (int \<times> string) option" where
  "match_Y (a # b # c # d # rest) =
     (if is_digit a \<and> is_digit b \<and> is_digit c \<and> is_digit d
      then Some (1000 * digit_val a + 100 * digit_val b + 10 * digit_val c + digit_val d, rest)
      else None)"
| "match_Y _ = None"

fun match_hyphen :: "string \<Rightarrow> string option" where
  "match_hyphen (c # rest) = (if c = CHR ''-'' then Some rest else None)"
| "match_hyphen [] = None"

definition two_chars :: "(char \<Rightarrow> bool) \<Rightarrow> (char \<Rightarrow> bool) \<Rightarrow> string \<Rightarrow> bool" where
  "two_chars p q s = (case s of a # b # _ \<Rightarrow> p a \<and> q b | _ \<Rightarrow> False)"

definition one_char :: "(char \<Rightarrow> bool) \<Rightarrow> string \<Rightarrow> bool" where
  "one_char p s = (case s of a # _ \<Rightarrow> p a | _ \<Rightarrow> False)"

definition num2 :: "string \<Rightarrow> int" where
  "num2 s = 10 * digit_val (s ! 0) + digit_val (s ! 1)"

definition match_m :: "string \<Rightarrow> (int \<times> string) option" where
  "match_m s =
     (if two_chars (\<lambda>c. c = CHR ''1'') (in_range CHR ''0'' CHR ''2'') s
        then Some (num2 s, drop 2 s)
      else if two_chars (\<lambda>c. c = CHR ''0'') (in_range CHR ''1'' CHR ''9'') s
        then Some (num2 s, drop 2 s)
      else if one_char (in_range CHR ''1'' CHR ''9'') s
        then Some (digit_val (s ! 0), drop 1 s)
      else None)"

definition match_d :: "string \<Rightarrow> (int \<times> string) option" where
  "match_d s =
     (if two_chars (\<lambda>c. c = CHR ''3'') (in_range CHR ''0'' CHR ''1'') s
        then Some (num2 s, drop 2 s)
      else if two_chars (in_range CHR ''1'' CHR ''2'') is_digit s
        then Some (num2 s, drop 2 s)
      else if two_chars (\<lambda>c. c = CHR ''0'') (in_range CHR ''1'' CHR ''9'') s
        then Some (num2 s, drop 2 s)
      else if one_char (in_range CHR ''1'' CHR ''9'') s
        then Some (digit_val (s ! 0), drop 1 s)
      else if two_chars (\<lambda>c. c = CHR '' '') (in_range CHR ''1'' CHR ''9'') s
        then Some (digit_val (s ! 1), drop 2 s)
      else None)"

definition strptime_date :: "string option \<Rightarrow> date option" where
  "strptime_date so =
     (case so of
        None \<Rightarrow> None
      | Some s \<Rightarrow>
          (case match_Y s of
             None \<Rightarrow> None
           | Some (y, r1) \<Rightarrow>
               (case match_hyphen r1 of
                  None \<Rightarrow> None
                | Some r2 \<Rightarrow>
                    (case match_m r2 of
                       None \<Rightarrow> None
                     | Some (m, r3) \<Rightarrow>
                         (case match_hyphen r3 of
                            None \<Rightarrow> None
                          | Some r4 \<Rightarrow>
                              (case match_d r4 of
                                 None \<Rightarrow> None
                               | Some (d, r5) \<Rightarrow>
                                   (if r5 \<noteq> [] then None else make_date y m d)))))))"

subsection \<open>compute_total_amount\<close>

text \<open>\<open>round(x, n)\<close> on a float with \<open>n \<ge> 0\<close> digits: to the nearest multiple of
  \<open>10 ^ (-n)\<close>, a tie to the even one.\<close>

definition py_round :: "real \<Rightarrow> nat \<Rightarrow> real" where
  "py_round x n =
     (let y = x * 10 ^ n; f = \<lfloor>y\<rfloor>; r = y - of_int f
      in (if r < 1 / 2 then of_int f
          else if r > 1 / 2 then of_int (f + 1)
          else if even f then of_int f else of_int (f + 1)) / 10 ^ n)"

text \<open>The function parses its two strings again; a ValueError of strptime is \<open>None\<close>.\<close>

definition compute_total_amount :: "real \<Rightarrow> string option \<Rightarrow> string option \<Rightarrow> real option" where
  "compute_total_amount price_per_night check_in check_out =
     (case strptime_date check_in of
        None \<Rightarrow> None
      | Some d1 \<Rightarrow>
          (case strptime_date check_out of
             None \<Rightarrow> None
           | Some d2 \<Rightarrow>
               (let nights = max (days_between d2 d1) 0
                in Some (py_round (price_per_night * of_int nights) 2))))"

subsection \<open>The store (SCHEMA_SQL)\<close>

datatype room_status = Available | Occupied | Maintenance

datatype booking_status = Booked | Checked_In | Checked_Out | Cancelled

record room =
  r_id :: int
  r_number :: string
  r_type :: string
  r_price_per_night :: real
  r_status :: room_status

record guest =
  g_id :: int
  g_name :: string
  g_phone :: string
  g_email :: string

record booking =
  b_id :: int
  b_room_id :: int
  b_guest_id :: int
  b_check_in :: string
  b_check_out :: string
  b_status :: booking_status
  b_total_amount :: real

text \<open>The three tables, and for each the largest id given so far (the table
  sqlite_sequence behind AUTOINCREMENT). No statement of the program deletes a row or
  writes an id of its own, so a new row gets the sequence value plus one.\<close>

record db =
  tbl_rooms :: "room list"
  tbl_guests :: "guest list"
  tbl_bookings :: "booking list"
  seq_rooms :: int
  seq_guests :: int
  seq_bookings :: int

definition init_db :: db where
  "init_db = \<lparr>tbl_rooms = [], tbl_guests = [], tbl_bookings = [],
              seq_rooms = 0, seq_guests = 0, seq_bookings = 0\<rparr>"

text \<open>The constraint named by an sqlite3.IntegrityError, and the exceptions that leave a
  view function. A statement that raises changes nothing, and a view function that
  raises does not commit: the store stays as it was.\<close>

datatype sql_constraint = NOT_NULL | CHECK | UNIQUE | FOREIGN_KEY

datatype exn = IntegrityError sql_constraint | ValueError

text \<open>The messages given to flash(). The text of the exception that two of them
  include is kept only as the constraint.\<close>

datatype flash =
    Room_number_is_required | Room_added | Error sql_constraint
  | Guest_name_is_required | Guest_added
  | Guest_checked_in | Guest_checked_out | Booking_cancelled
  | Invalid_dates | Invalid_room | Booking_created
  | Seeded_sample_data

text \<open>What a view function returns: a redirect or the rendered page, each with the
  message flashed on the way (if any), or an exception that nothing catches.\<close>

datatype response = Redirect "flash option" | Page "flash option" | Raised exn

datatype http_method = GET | POST

record request =
  request_method :: http_method
  args :: "string \<rightharpoonup> string"
  form :: "string \<rightharpoonup> string"

text \<open>\<open>request.form.get(k, default)\<close>.\<close>

definition get_default :: "(string \<rightharpoonup> string) \<Rightarrow> string \<Rightarrow> string \<Rightarrow> string" where
  "get_default m k dflt = (case m k of None \<Rightarrow> dflt | Some v \<Rightarrow> v)"

text \<open>\<open>str.strip()\<close>: the white space of Python among the code points below 256.\<close>

definition is_space :: "char \<Rightarrow> bool" where
  "is_space c = ((of_char c :: nat) \<in> set [9, 10, 11, 12, 13, 28, 29, 30, 31, 32, 133, 160])"

definition strip :: "string \<Rightarrow> string" where
  "strip s = rev (dropWhile is_space (rev (dropWhile is_space s)))"

text \<open>
  The ids of a request are strings. SQLite compares a text parameter with an INTEGER
  column, and stores it into one, after converting it to a number where the text denotes
  one. This conversion is a parameter \<open>key\<close> of the model, from the text to the integer it
  denotes (\<open>None\<close> where it denotes none, and then no row matches). A NULL parameter
  matches no row either.
\<close>

definition key_of :: "(string \<Rightarrow> int option) \<Rightarrow> string option \<Rightarrow> int option" where
  "key_of key v = (case v of None \<Rightarrow> None | Some t \<Rightarrow> key t)"

subsection \<open>SQL statements of the program\<close>

text \<open>\<open>INSERT INTO rooms(number, type, price_per_night[, status])\<close>. SQLite tests the
  CHECK constraints of the row before the UNIQUE index.\<close>

definition insert_room :: "db \<Rightarrow> string \<Rightarrow> string \<Rightarrow> real \<Rightarrow> room_status \<Rightarrow> sql_constraint + db" where
  "insert_room db number rtype price st =
     (if rtype \<notin> set [''Single'', ''Double'', ''Suite''] \<or> \<not> price \<ge> 0 then Inl CHECK
      else if number \<in> set (map r_number (tbl_rooms db)) then Inl UNIQUE
      else Inr (db\<lparr>tbl_rooms := tbl_rooms db @
                      [\<lparr>r_id = seq_rooms db + 1, r_number = number, r_type = rtype,
                        r_price_per_night = price, r_status = st\<rparr>],
                    seq_rooms := seq_rooms db + 1\<rparr>))"

text \<open>\<open>INSERT INTO guests(name, phone, email)\<close>.\<close>

definition insert_guest :: "db \<Rightarrow> string \<Rightarrow> string \<Rightarrow> string \<Rightarrow> db" where
  "insert_guest db name phone email =
     db\<lparr>tbl_guests := tbl_guests db @
           [\<lparr>g_id = seq_guests db + 1, g_name = name, g_phone = phone, g_email = email\<rparr>],
        seq_guests := seq_guests db + 1\<rparr>"

text \<open>\<open>SELECT id, price_per_night FROM rooms WHERE id=?\<close> with fetchone().\<close>

definition select_room :: "(string \<Rightarrow> int option) \<Rightarrow> db \<Rightarrow> string option \<Rightarrow> room option" where
  "select_room key db room_id =
     find (\<lambda>r. Some (r_id r) = key_of key room_id) (tbl_rooms db)"

text \<open>\<open>INSERT INTO bookings(room_id, guest_id, check_in, check_out, total_amount)\<close>: the
  status is the default 'Booked'. With foreign keys on, the row needs a room and a guest
  with the ids it stores.\<close>

definition insert_booking ::
  "(string \<Rightarrow> int option) \<Rightarrow> db \<Rightarrow> string option \<Rightarrow> string option \<Rightarrow> string option \<Rightarrow> string option \<Rightarrow> real
     \<Rightarrow> sql_constraint + db" where
  "insert_booking key db room_id guest_id check_in check_out amount =
     (case (room_id, guest_id, check_in, check_out) of
        (Some rt, Some gt, Some ci, Some co) \<Rightarrow>
          (case (key rt, key gt) of
             (Some rid, Some gid) \<Rightarrow>
               (if rid \<in> set (map r_id (tbl_rooms db)) \<and> gid \<in> set (map g_id (tbl_guests db))
                then Inr (db\<lparr>tbl_bookings := tbl_bookings db @
                                [\<lparr>b_id = seq_bookings db + 1, b_room_id = rid, b_guest_id = gid,
                                  b_check_in = ci, b_check_out = co, b_status = Booked,
                                  b_total_amount = amount\<rparr>],
                              seq_bookings := seq_bookings db + 1\<rparr>)
                else Inl FOREIGN_KEY)
           | _ \<Rightarrow> Inl FOREIGN_KEY)
      | _ \<Rightarrow> Inl NOT_NULL)"

text \<open>\<open>UPDATE rooms SET status=s WHERE id=?\<close>.\<close>

definition update_room_status :: "(string \<Rightarrow> int option) \<Rightarrow> db \<Rightarrow> room_status \<Rightarrow> string option \<Rightarrow> db" where
  "update_room_status key db s room_id =
     db\<lparr>tbl_rooms :=
          map (\<lambda>r. if Some (r_id r) = key_of key room_id then r\<lparr>r_status := s\<rparr> else r)
            (tbl_rooms db)\<rparr>"

text \<open>\<open>UPDATE bookings SET status=s WHERE id=?\<close>.\<close>

definition update_booking_status :: "(string \<Rightarrow> int option) \<Rightarrow> db \<Rightarrow> booking_status \<Rightarrow> string \<Rightarrow> db" where
  "update_booking_status key db s bid =
     db\<lparr>tbl_bookings :=
          map (\<lambda>b. if Some (b_id b) = key bid then b\<lparr>b_status := s\<rparr> else b)
            (tbl_bookings db)\<rparr>"

text \<open>\<open>UPDATE rooms SET status=s WHERE id=(SELECT room_id FROM bookings WHERE id=?)\<close>:
  the subquery is the room_id of the first booking with this id, or NULL, which equals
  no id.\<close>

definition update_room_status_of_booking ::
  "(string \<Rightarrow> int option) \<Rightarrow> db \<Rightarrow> room_status \<Rightarrow> string \<Rightarrow> db" where
  "update_room_status_of_booking key db s bid =
     (case find (\<lambda>b. Some (b_id b) = key bid) (tbl_bookings db) of
        None \<Rightarrow> db
      | Some b \<Rightarrow>
          db\<lparr>tbl_rooms :=
               map (\<lambda>r. if r_id r = b_room_id b then r\<lparr>r_status := s\<rparr> else r)
                 (tbl_rooms db)\<rparr>)"

subsection \<open>The view functions\<close>

text \<open>
  \<open>rooms()\<close>, the POST branch. Python's \<open>float()\<close> on the text of the price is the
  parameter \<open>fl\<close> (\<open>None\<close> where it raises ValueError, which nothing catches). The INSERT
  names no status, so the row gets the default 'Available'. An IntegrityError is caught
  and flashed, and the page is rendered.
\<close>

definition rooms :: "(string \<Rightarrow> real option) \<Rightarrow> db \<Rightarrow> request \<Rightarrow> db \<times> response" where
  "rooms fl db req =
     (if request_method req = POST then
        (let number = strip (get_default (form req) ''number'' []);
             rtype = get_default (form req) ''type'' ''Single'';
             price = strip (get_default (form req) ''price'' ''0'')
         in if number = [] then (db, Page (Some Room_number_is_required))
            else (case (if price = [] then Some 0 else fl price) of
                    None \<Rightarrow> (db, Raised ValueError)
                  | Some x \<Rightarrow>
                      (case insert_room db number rtype x Available of
                         Inl c \<Rightarrow> (db, Page (Some (Error c)))
                       | Inr db' \<Rightarrow> (db', Redirect (Some Room_added)))))
      else (db, Page None))"

text \<open>\<open>guests()\<close>.\<close>

definition guests :: "db \<Rightarrow> request \<Rightarrow> db \<times> response" where
  "guests db req =
     (if request_method req = POST then
        (let name = strip (get_default (form req) ''name'' []);
             phone = strip (get_default (form req) ''phone'' []);
             email = strip (get_default (form req) ''email'' [])
         in if name = [] then (db, Page (Some Guest_name_is_required))
            else (insert_guest db name phone email, Redirect (Some Guest_added)))
      else (db, Page None))"

text \<open>
  \<open>bookings()\<close>, the actions (the body of \<open>if action and bid\<close>): the chain of
  \<open>if\<close>/\<open>elif\<close> on the action, each branch with its two UPDATE statements and its message.
  No branch looks at the booking before it writes, and an action that is none of the
  three runs no statement.
\<close>

definition bookings_action ::
  "(string \<Rightarrow> int option) \<Rightarrow> db \<Rightarrow> string \<Rightarrow> string \<Rightarrow> db \<times> flash option" where
  "bookings_action key db action bid =
     (if action = ''checkin'' then
        (update_room_status_of_booking key (update_booking_status key db Checked_In bid) Occupied bid,
         Some Guest_checked_in)
      else if action = ''checkout'' then
        (update_room_status_of_booking key (update_booking_status key db Checked_Out bid) Available bid,
         Some Guest_checked_out)
      else if action = ''cancel'' then
        (update_room_status_of_booking key (update_booking_status key db Cancelled bid) Available bid,
         Some Booking_cancelled)
      else (db, None))"

text \<open>The \<open>try\<close> block that validates the dates: strptime on both fields, then the
  assertion \<open>d_out > d_in\<close>; any exception is caught.\<close>

definition dates_accepted :: "string option \<Rightarrow> string option \<Rightarrow> bool" where
  "dates_accepted check_in check_out =
     (case strptime_date check_in of
        None \<Rightarrow> False
      | Some d_in \<Rightarrow>
          (case strptime_date check_out of
             None \<Rightarrow> False
           | Some d_out \<Rightarrow> date_gt d_out d_in))"

text \<open>\<open>bookings()\<close>, the POST branch.\<close>

definition bookings_post :: "(string \<Rightarrow> int option) \<Rightarrow> db \<Rightarrow> request \<Rightarrow> db \<times> response" where
  "bookings_post key db req =
     (let room_id = form req ''room_id'';
          guest_id = form req ''guest_id'';
          check_in = form req ''check_in'';
          check_out = form req ''check_out''
      in if \<not> dates_accepted check_in check_out then (db, Redirect (Some Invalid_dates))
         else (case select_room key db room_id of
                 None \<Rightarrow> (db, Redirect (Some Invalid_room))
               | Some row \<Rightarrow>
                   (case compute_total_amount (r_price_per_night row) check_in check_out of
                      None \<Rightarrow> (db, Raised ValueError)
                    | Some amount \<Rightarrow>
                        (case insert_booking key db room_id guest_id check_in check_out amount of
                           Inl c \<Rightarrow> (db, Raised (IntegrityError c))
                         | Inr db' \<Rightarrow>
                             (update_room_status key db' Occupied room_id,
                              Redirect (Some Booking_created))))))"

text \<open>\<open>bookings()\<close>: the actions when both query parameters are given and not empty,
  else the form on a POST, else the page.\<close>

definition bookings :: "(string \<Rightarrow> int option) \<Rightarrow> db \<Rightarrow> request \<Rightarrow> db \<times> response" where
  "bookings key db req =
     (case (args req ''action'', args req ''id'') of
        (Some action, Some bid) \<Rightarrow>
          (if action \<noteq> [] \<and> bid \<noteq> [] then
             (let (db', msg) = bookings_action key db action bid in (db', Redirect msg))
           else if request_method req = POST then bookings_post key db req
           else (db, Page None))
      | _ \<Rightarrow>
          (if request_method req = POST then bookings_post key db req else (db, Page None)))"

text \<open>\<open>seed()\<close>: executemany stops at the first row that raises.\<close>

fun executemany_rooms :: "db \<Rightarrow> (string \<times> string \<times> real \<times> room_status) list \<Rightarrow> sql_constraint + db" where
  "executemany_rooms db [] = Inr db"
| "executemany_rooms db ((number, rtype, price, st) # rows) =
     (case insert_room db number rtype price st of
        Inl c \<Rightarrow> Inl c
      | Inr db' \<Rightarrow> executemany_rooms db' rows)"

fun executemany_guests :: "db \<Rightarrow> (string \<times> string \<times> string) list \<Rightarrow> db" where
  "executemany_guests db [] = db"
| "executemany_guests db ((name, phone, email) # rows) =
     executemany_guests (insert_guest db name phone email) rows"

definition seed :: "db \<Rightarrow> db \<times> response" where
  "seed db =
     (case (if length (tbl_rooms db) = 0
            then executemany_rooms db
                   [(''101'', ''Single'', 1500, Available),
                    (''102'', ''Double'', 2500, Available),
                    (''201'', ''Suite'', 5000, Maintenance)]
            else Inr db) of
        Inl c \<Rightarrow> (db, Raised (IntegrityError c))
      | Inr db1 \<Rightarrow>
          (let db2 = (if length (tbl_guests db1) = 0
                      then executemany_guests db1
                             [(''Aarav Sharma'', ''9999999999'', ''aarav@example.com''),
                              (''Isha Patel'', ''8888888888'', ''isha@example.com'')]
                      else db1)
           in (db2, Redirect (Some Seeded_sample_data))))"

subsection \<open>The states of the store\<close>

text \<open>The routes that write. The other routes (the dashboard and the JSON lists) only
  read. A state is reachable when requests lead to it from the empty tables that
  \<open>init_db\<close> creates.\<close>

datatype route = Route_rooms | Route_guests | Route_bookings | Route_seed

fun serve :: "(string \<Rightarrow> int option) \<Rightarrow> (string \<Rightarrow> real option) \<Rightarrow> db \<Rightarrow> route \<Rightarrow> request \<Rightarrow> db \<times> response" where
  "serve key fl db Route_rooms req = rooms fl db req"
| "serve key fl db Route_guests req = guests db req"
| "serve key fl db Route_bookings req = bookings key db req"
| "serve key fl db Route_seed req = seed db"

fun run :: "(string \<Rightarrow> int option) \<Rightarrow> (string \<Rightarrow> real option) \<Rightarrow> db \<Rightarrow> (route \<times> request) list \<Rightarrow> db" where
  "run key fl db [] = db"
| "run key fl db ((rt, req) # rest) = run key fl (fst (serve key fl db rt req)) rest"

inductive reachable :: "(string \<Rightarrow> int option) \<Rightarrow> (string \<Rightarrow> real option) \<Rightarrow> db \<Rightarrow> bool"
  for key :: "string \<Rightarrow> int option" and fl :: "string \<Rightarrow> real option" where
  reachable_init: "reachable key fl init_db"
| reachable_step: "reachable key fl db \<Longrightarrow> reachable key fl (fst (serve key fl db rt req))"

subsection \<open>Reading the store\<close>

text \<open>\<open>SELECT status FROM bookings WHERE id = i\<close> and \<open>SELECT status FROM rooms WHERE
  id = i\<close>, each with fetchone().\<close>

definition booking_status_of :: "db \<Rightarrow> int \<Rightarrow> booking_status option" where
  "booking_status_of db i = map_option b_status (find (\<lambda>b. b_id b = i) (tbl_bookings db))"

definition room_status_of :: "db \<Rightarrow> int \<Rightarrow> room_status option" where
  "room_status_of db i = map_option r_status (find (\<lambda>r. r_id r = i) (tbl_rooms db))"

text \<open>A booking is active while it is Booked or Checked-In.\<close>

definition active :: "booking_status \<Rightarrow> bool" where
  "active s = (s = Booked \<or> s = Checked_In)"

definition has_active_booking :: "db \<Rightarrow> int \<Rightarrow> bool" where
  "has_active_booking db rid =
     list_ex (\<lambda>b. b_room_id b = rid \<and> active (b_status b)) (tbl_bookings db)"

text \<open>A request for an action on a booking: both query parameters are given and
  neither is empty, so that \<open>if action and bid\<close> holds.\<close>

definition transition_request :: "request \<Rightarrow> string \<Rightarrow> string \<Rightarrow> bool" where
  "transition_request req action bid =
     (args req ''action'' = Some action \<and> args req ''id'' = Some bid \<and> action \<noteq> [] \<and> bid \<noteq> [])"

subsection \<open>What the schema keeps true\<close>

text \<open>
  The constraints of SCHEMA_SQL as properties of a state: booking ids are unique and not
  above the sequence (PRIMARY KEY AUTOINCREMENT), every booking names a room of the
  table (FOREIGN KEY, rooms are never deleted), prices are not negative (CHECK), and so
  are the amounts computed from them. The last part is the link between the two status
  columns that the view functions keep: an Occupied room has an active booking.
\<close>

definition booking_ids_ok :: "db \<Rightarrow> bool" where
  "booking_ids_ok db =
     (distinct (map b_id (tbl_bookings db)) \<and>
      (\<forall>b \<in> set (tbl_bookings db). b_id b \<le> seq_bookings db))"

definition booking_rooms_ok :: "db \<Rightarrow> bool" where
  "booking_rooms_ok db =
     (\<forall>b \<in> set (tbl_bookings db). b_room_id b \<in> set (map r_id (tbl_rooms db)))"

definition prices_ok :: "db \<Rightarrow> bool" where
  "prices_ok db = (\<forall>r \<in> set (tbl_rooms db). 0 \<le> r_price_per_night r)"

definition amounts_ok :: "db \<Rightarrow> bool" where
  "amounts_ok db = (\<forall>b \<in> set (tbl_bookings db). 0 \<le> b_total_amount b)"

definition occupied_ok :: "db \<Rightarrow> bool" where
  "occupied_ok db =
     (\<forall>r \<in> set (tbl_rooms db). r_status r = Occupied \<longrightarrow> has_active_booking db (r_id r))"

definition store_ok :: "db \<Rightarrow> bool" where
  "store_ok db =
     (booking_ids_ok db \<and> booking_rooms_ok db \<and> prices_ok db \<and> amounts_ok db \<and> occupied_ok db)"

subsection \<open>The specification's vocabulary\<close>

text \<open>
  The specification names three kinds of failure. The program has no such classes: it
  flashes a message or lets an exception of sqlite3 or of \<open>float()\<close> escape. The function
  below reads a response as the specification would: a violated UNIQUE constraint is a
  conflict, a missing parent row (the message "Invalid room", a violated FOREIGN KEY) is
  not-found, every other rejected input is a validation error, and every other response
  is no failure.
\<close>

datatype failure = ValidationError | NotFoundError | ConflictError

fun failure_of_constraint :: "sql_constraint \<Rightarrow> failure" where
  "failure_of_constraint UNIQUE = ConflictError"
| "failure_of_constraint FOREIGN_KEY = NotFoundError"
| "failure_of_constraint CHECK = ValidationError"
| "failure_of_constraint NOT_NULL = ValidationError"

fun failure_of :: "response \<Rightarrow> failure option" where
  "failure_of (Raised (IntegrityError c)) = Some (failure_of_constraint c)"
| "failure_of (Raised ValueError) = Some ValidationError"
| "failure_of (Page (Some (Error c))) = Some (failure_of_constraint c)"
| "failure_of (Page (Some Room_number_is_required)) = Some ValidationError"
| "failure_of (Page (Some Guest_name_is_required)) = Some ValidationError"
| "failure_of (Redirect (Some Invalid_dates)) = Some ValidationError"
| "failure_of (Redirect (Some Invalid_room)) = Some NotFoundError"
| "failure_of _ = None"

text \<open>The room-status invariant in the specification's words: a room is Occupied if and
  only if it has a booking that is Booked or Checked-In, and otherwise Available.\<close>

definition spec_room_status_invariant :: "db \<Rightarrow> bool" where
  "spec_room_status_invariant db =
     (\<forall>r \<in> set (tbl_rooms db).
        (r_status r = Occupied \<longleftrightarrow> has_active_booking db (r_id r)) \<and>
        (\<not> has_active_booking db (r_id r) \<longrightarrow> r_status r = Available))"

subsection \<open>Requests and stores for the examples\<close>

text \<open>An instance of each parameter: the conversions on plain decimal numerals, as the
  pages of the program write ids into their links and forms.\<close>

definition key10 :: "string \<Rightarrow> int option" where
  "key10 s =
     (if s \<noteq> [] \<and> list_all is_digit s
      then Some (foldl (\<lambda>n c. 10 * n + digit_val c) 0 s) else None)"

definition fl10 :: "string \<Rightarrow> real option" where
  "fl10 s = map_option of_int (key10 s)"

definition form_post :: "(string \<times> string) list \<Rightarrow> request" where
  "form_post kvs = \<lparr>request_method = POST, args = Map.empty, form = map_of kvs\<rparr>"

definition action_get :: "string \<Rightarrow> string \<Rightarrow> request" where
  "action_get action bid =
     \<lparr>request_method = GET, args = map_of [(''action'', action), (''id'', bid)], form = Map.empty\<rparr>"

definition booking_form :: "string \<Rightarrow> string \<Rightarrow> string \<Rightarrow> string \<Rightarrow> request" where
  "booking_form room_id guest_id check_in check_out =
     form_post [(''room_id'', room_id), (''guest_id'', guest_id),
                (''check_in'', check_in), (''check_out'', check_out)]"

text \<open>The store after /seed: rooms 1 and 2 Available, room 3 in Maintenance, two guests.\<close>

definition seeded_db :: db where
  "seeded_db =
     \<lparr>tbl_rooms =
        [\<lparr>r_id = 1, r_number = ''101'', r_type = ''Single'', r_price_per_night = 1500,
          r_status = Available\<rparr>,
         \<lparr>r_id = 2, r_number = ''102'', r_type = ''Double'', r_price_per_night = 2500,
          r_status = Available\<rparr>,
         \<lparr>r_id = 3, r_number = ''201'', r_type = ''Suite'', r_price_per_night = 5000,
          r_status = Maintenance\<rparr>],
      tbl_guests =
        [\<lparr>g_id = 1, g_name = ''Aarav Sharma'', g_phone = ''9999999999'',
          g_email = ''aarav@example.com''\<rparr>,
         \<lparr>g_id = 2, g_name = ''Isha Patel'', g_phone = ''8888888888'',
          g_email = ''isha@example.com''\<rparr>],
      tbl_bookings = [],
      seq_rooms = 3, seq_guests = 2, seq_bookings = 0\<rparr>"

text \<open>The store after /seed and one booking of room 1 by guest 1 for two nights.\<close>

definition booked_db :: db where
  "booked_db =
     seeded_db
       \<lparr>tbl_rooms :=
          [\<lparr>r_id = 1, r_number = ''101'', r_type = ''Single'', r_price_per_night = 1500,
            r_status = Occupied\<rparr>,
           \<lparr>r_id = 2, r_number = ''102'', r_type = ''Double'', r_price_per_night = 2500,
            r_status = Available\<rparr>,
           \<lparr>r_id = 3, r_number = ''201'', r_type = ''Suite'', r_price_per_night = 5000,
            r_status = Maintenance\<rparr>],
        tbl_bookings :=
          [\<lparr>b_id = 1, b_room_id = 1, b_guest_id = 1, b_check_in = ''2024-01-01'',
            b_check_out = ''2024-01-03'', b_status = Booked, b_total_amount = 3000\<rparr>],
        seq_bookings := 1\<rparr>"

definition plain_get :: request where
  "plain_get = \<lparr>request_method = GET, args = Map.empty, form = Map.empty\<rparr>"

text \<open>Booking 1 of that store checked out: room 1 is Available again.\<close>

definition checked_out_db :: db where
  "checked_out_db =
     booked_db
       \<lparr>tbl_rooms :=
          [\<lparr>r_id = 1, r_number = ''101'', r_type = ''Single'', r_price_per_night = 1500,
            r_status = Available\<rparr>,
           \<lparr>r_id = 2, r_number = ''102'', r_type = ''Double'', r_price_per_night = 2500,
            r_status = Available\<rparr>,
           \<lparr>r_id = 3, r_number = ''201'', r_type = ''Suite'', r_price_per_night = 5000,
            r_status = Maintenance\<rparr>],
        tbl_bookings :=
          [\<lparr>b_id = 1, b_room_id = 1, b_guest_id = 1, b_check_in = ''2024-01-01'',
            b_check_out = ''2024-01-03'', b_status = Checked_Out, b_total_amount = 3000\<rparr>]\<rparr>"

text \<open>Requests that book room 1 twice and then check the first booking out.\<close>

definition two_bookings_one_checkout :: "(route \<times> request) list" where
  "two_bookings_one_checkout =
     [(Route_seed, plain_get),
      (Route_bookings, booking_form ''1'' ''1'' ''2024-01-01'' ''2024-01-03''),
      (Route_bookings, booking_form ''1'' ''2'' ''2024-01-02'' ''2024-01-05''),
      (Route_bookings, action_get ''checkout'' ''1'')]"

section \<open>Dates: the order of dates and the number of days between them\<close>

lemma div_step:
  fixes y k :: int
  assumes "0 < k"
  shows "y div k = (y - 1) div k + (if y mod k = 0 then 1 else 0)"
proof (cases "y mod k = 0")
  case True
  have "y = k * (y div k)" using True mult_div_mod_eq [of k y] by simp
  then have "y - 1 = k * (y div k - 1) + (k - 1)"
    by (simp add: algebra_simps)
  then have "(y - 1) div k = y div k - 1"
    using assms int_div_pos_eq [of "y - 1" k "y div k - 1" "k - 1"] by simp
  then show ?thesis using True by simp
next
  case False
  have "0 \<le> y mod k" "y mod k < k" using assms by simp_all
  with False have r: "0 \<le> y mod k - 1" "y mod k - 1 < k" by simp_all
  have "y - 1 = k * (y div k) + (y mod k - 1)"
    using mult_div_mod_eq [of k y] by simp
  then have "(y - 1) div k = y div k"
    using r int_div_pos_eq [of "y - 1" k "y div k" "y mod k - 1"] by simp
  then show ?thesis using False by simp
qed

lemma days_before_year_step:
  "days_before_year (y + 1) = days_before_year y + (if is_leap y then 366 else 365)"
proof -
  define q4 where "q4 = (y - 1) div 4"
  define q100 where "q100 = (y - 1) div 100"
  define q400 where "q400 = (y - 1) div 400"
  have a: "y div 4 = q4 + (if y mod 4 = 0 then 1 else 0)"
    unfolding q4_def by (rule div_step) simp
  have b: "y div 100 = q100 + (if y mod 100 = 0 then 1 else 0)"
    unfolding q100_def by (rule div_step) simp
  have c: "y div 400 = q400 + (if y mod 400 = 0 then 1 else 0)"
    unfolding q400_def by (rule div_step) simp
  have d: "y mod 100 = 0" if "y mod 400 = 0"
  proof -
    from that have "400 dvd y" by (simp add: mod_eq_0_iff_dvd)
    moreover have "(100::int) dvd 400" by simp
    ultimately have "100 dvd y" by (rule dvd_trans [rotated])
    then show ?thesis by (simp add: mod_eq_0_iff_dvd)
  qed
  have e: "y mod 4 = 0" if "y mod 100 = 0"
  proof -
    from that have "100 dvd y" by (simp add: mod_eq_0_iff_dvd)
    moreover have "(4::int) dvd 100" by simp
    ultimately have "4 dvd y" by (rule dvd_trans [rotated])
    then show ?thesis by (simp add: mod_eq_0_iff_dvd)
  qed
  have l: "days_before_year (y + 1) = y * 365 + y div 4 - y div 100 + y div 400"
    by (simp add: days_before_year_def Let_def)
  have r: "days_before_year y = (y - 1) * 365 + q4 - q100 + q400"
    by (simp add: days_before_year_def Let_def q4_def q100_def q400_def)
  show ?thesis
  proof (cases "y mod 4 = 0")
    case False
    with d e have "y mod 100 \<noteq> 0" "y mod 400 \<noteq> 0" by auto
    with False a b c l r show ?thesis by (simp add: is_leap_def)
  next
    case m4: True
    show ?thesis
    proof (cases "y mod 100 = 0")
      case False
      with d have "y mod 400 \<noteq> 0" by auto
      with m4 False a b c l r show ?thesis by (simp add: is_leap_def)
    next
      case m100: True
      show ?thesis
      proof (cases "y mod 400 = 0")
        case True
        with m4 m100 a b c l r show ?thesis by (simp add: is_leap_def)
      next
        case False
        with m4 m100 a b c l r show ?thesis by (simp add: is_leap_def)
      qed
    qed
  qed
qed

lemma month_cases:
  "1 \<le> m \<Longrightarrow> m \<le> 12 \<Longrightarrow>
     m = 1 \<or> m = 2 \<or> m = 3 \<or> m = 4 \<or> m = 5 \<or> m = 6 \<or> m = 7 \<or> m = 8 \<or> m = 9 \<or> m = 10
       \<or> m = 11 \<or> m = (12::int)"
  by presburger


lemma days_before_year_mono_nat:
  "days_before_year y \<le> days_before_year (y + int k)"
proof (induction k)
  case 0
  show ?case by simp
next
  case (Suc k)
  have "y + int (Suc k) = (y + int k) + 1" by simp
  then have "days_before_year (y + int (Suc k)) = days_before_year ((y + int k) + 1)"
    by (rule arg_cong)
  also have "\<dots> \<ge> days_before_year (y + int k)"
    by (simp add: days_before_year_step)
  finally show ?case using Suc.IH by linarith
qed

lemma days_before_year_mono:
  assumes "y1 \<le> y2"
  shows "days_before_year y1 \<le> days_before_year y2"
proof -
  have "y2 = y1 + int (nat (y2 - y1))" using assms by simp
  then show ?thesis using days_before_year_mono_nat [of y1 "nat (y2 - y1)"] by simp
qed

lemma next_year_later:
  assumes "y1 < y2"
  shows "days_before_year y1 + (if is_leap y1 then 366 else 365) \<le> days_before_year y2"
proof -
  have "days_before_year (y1 + 1) \<le> days_before_year y2"
    using assms by (intro days_before_year_mono) simp
  then show ?thesis by (simp add: days_before_year_step)
qed

lemma day_of_year_bounds:
  assumes "valid_date y m d"
  shows "1 \<le> days_before_month y m + d"
    and "days_before_month y m + d \<le> (if is_leap y then 366 else 365)"
proof -
  from assms have m: "1 \<le> m" "m \<le> 12" and d: "1 \<le> d" "d \<le> days_in_month y m"
    by (simp_all add: valid_date_def)
  from month_cases [OF m] d show "1 \<le> days_before_month y m + d"
    by (auto simp: days_before_month_def)
  from month_cases [OF m] d show "days_before_month y m + d \<le> (if is_leap y then 366 else 365)"
    by (auto simp: days_before_month_def days_in_month_def split: if_splits)
qed

lemma days_before_month_step:
  assumes "1 \<le> m" and "m \<le> 11"
  shows "days_before_month y (m + 1) = days_before_month y m + days_in_month y m"
proof -
  from assms have "m = 1 \<or> m = 2 \<or> m = 3 \<or> m = 4 \<or> m = 5 \<or> m = 6 \<or> m = 7 \<or> m = 8 \<or> m = 9
      \<or> m = 10 \<or> m = 11" by arith
  then show ?thesis
    by (auto simp: days_before_month_def days_in_month_def)
qed

lemma days_before_month_mono_nat:
  "1 \<le> m \<Longrightarrow> m + int k \<le> 12 \<Longrightarrow> days_before_month y m \<le> days_before_month y (m + int k)"
proof (induction k)
  case 0
  show ?case by simp
next
  case (Suc k)
  then have le: "days_before_month y m \<le> days_before_month y (m + int k)" by simp
  have "days_before_month y ((m + int k) + 1)
          = days_before_month y (m + int k) + days_in_month y (m + int k)"
    using Suc.prems by (intro days_before_month_step) simp_all
  moreover have "0 \<le> days_in_month y (m + int k)"
  proof -
    have "1 \<le> m + int k" "m + int k \<le> 12" using Suc.prems by simp_all
    from month_cases [OF this] show ?thesis by (auto simp: days_in_month_def)
  qed
  moreover have "m + int (Suc k) = (m + int k) + 1" by simp
  ultimately show ?case using le by (simp only:)
qed

lemma next_month_later:
  assumes "1 \<le> m1" and "m1 < m2" and "m2 \<le> 12"
  shows "days_before_month y m1 + days_in_month y m1 \<le> days_before_month y m2"
proof -
  have "days_before_month y (m1 + 1) \<le> days_before_month y ((m1 + 1) + int (nat (m2 - m1 - 1)))"
    using assms by (intro days_before_month_mono_nat) simp_all
  moreover have "(m1 + 1) + int (nat (m2 - m1 - 1)) = m2" using assms by simp
  moreover have "days_before_month y (m1 + 1) = days_before_month y m1 + days_in_month y m1"
    using assms by (intro days_before_month_step) simp_all
  ultimately show ?thesis by simp
qed

lemma date_gt_toordinal:
  assumes v1: "valid_date (year d1) (month d1) (day d1)"
      and v2: "valid_date (year d2) (month d2) (day d2)"
      and gt: "date_gt d2 d1"
  shows "toordinal d1 < toordinal d2"
proof -
  consider (y) "year d1 < year d2"
    | (m) "year d1 = year d2" "month d1 < month d2"
    | (d) "year d1 = year d2" "month d1 = month d2" "day d1 < day d2"
    using gt by (auto simp: date_gt_def)
  then show ?thesis
  proof cases
    case y
    have "days_before_month (year d1) (month d1) + day d1
            \<le> (if is_leap (year d1) then 366 else 365)"
      by (rule day_of_year_bounds(2) [OF v1])
    moreover have "1 \<le> days_before_month (year d2) (month d2) + day d2"
      by (rule day_of_year_bounds(1) [OF v2])
    moreover note next_year_later [OF y]
    ultimately show ?thesis unfolding toordinal_def by linarith
  next
    case m
    have "day d1 \<le> days_in_month (year d1) (month d1)" and "1 \<le> month d1"
      using v1 by (simp_all add: valid_date_def)
    moreover have "1 \<le> day d2" and "month d2 \<le> 12"
      using v2 by (simp_all add: valid_date_def)
    moreover have "days_before_month (year d1) (month d1) + days_in_month (year d1) (month d1)
            \<le> days_before_month (year d1) (month d2)"
      using \<open>1 \<le> month d1\<close> m(2) \<open>month d2 \<le> 12\<close> by (rule next_month_later)
    ultimately show ?thesis unfolding toordinal_def using m(1) by simp
  next
    case d
    then show ?thesis unfolding toordinal_def by simp
  qed
qed

lemma strptime_date_valid:
  assumes "strptime_date s = Some dt"
  shows "valid_date (year dt) (month dt) (day dt)"
  using assms
  by (auto simp: strptime_date_def make_date_def split: option.splits prod.splits if_splits)

lemma py_round_nonneg:
  assumes "0 \<le> x"
  shows "0 \<le> py_round x n"
proof -
  have "0 \<le> x * 10 ^ n" using assms by simp
  then have f: "0 \<le> \<lfloor>x * 10 ^ n\<rfloor>" by simp
  then have "(0::real) \<le> of_int \<lfloor>x * 10 ^ n\<rfloor>" and "(0::real) \<le> of_int (\<lfloor>x * 10 ^ n\<rfloor> + 1)"
    by simp_all
  then show ?thesis
    unfolding py_round_def Let_def by (simp add: divide_nonneg_pos)
qed

lemma date_gt_asym: "date_gt d2 d1 \<Longrightarrow> \<not> date_gt d1 d2"
  by (auto simp: date_gt_def)

lemma date_gt_iff_days:
  assumes v1: "valid_date (year d1) (month d1) (day d1)"
      and v2: "valid_date (year d2) (month d2) (day d2)"
  shows "date_gt d2 d1 \<longleftrightarrow> 0 < days_between d2 d1"
proof
  assume "date_gt d2 d1"
  from date_gt_toordinal [OF v1 v2 this] show "0 < days_between d2 d1"
    by (simp add: days_between_def)
next
  assume pos: "0 < days_between d2 d1"
  show "date_gt d2 d1"
  proof (rule ccontr)
    assume n: "\<not> date_gt d2 d1"
    then have "(year d1 = year d2 \<and> month d1 = month d2 \<and> day d1 = day d2) \<or> date_gt d1 d2"
      unfolding date_gt_def by arith
    then show False
    proof
      assume "year d1 = year d2 \<and> month d1 = month d2 \<and> day d1 = day d2"
      then show False using pos by (simp add: days_between_def toordinal_def)
    next
      assume gt: "date_gt d1 d2"
      from date_gt_toordinal [OF v2 v1 gt] show False using pos
        by (simp add: days_between_def)
    qed
  qed
qed

lemma strptime_date_given: "strptime_date v = Some d \<Longrightarrow> \<exists>s. v = Some s"
  by (cases v) (simp_all add: strptime_date_def)

lemma dates_accepted_iff:
  "dates_accepted ci co \<longleftrightarrow>
     (\<exists>d_in d_out. strptime_date ci = Some d_in \<and> strptime_date co = Some d_out
        \<and> date_gt d_out d_in)"
  by (auto simp: dates_accepted_def split: option.splits)

lemma compute_total_amount_accepted:
  assumes "strptime_date ci = Some d_in" and "strptime_date co = Some d_out"
      and "date_gt d_out d_in"
  shows "compute_total_amount p ci co = Some (py_round (p * of_int (days_between d_out d_in)) 2)"
proof -
  have "0 < days_between d_out d_in"
    using assms strptime_date_valid date_gt_iff_days by blast
  then have "max (days_between d_out d_in) 0 = days_between d_out d_in" by simp
  then show ?thesis using assms(1,2) by (simp add: compute_total_amount_def)
qed

lemma compute_total_amount_nonneg:
  assumes "compute_total_amount p ci co = Some t" and "0 \<le> p"
  shows "0 \<le> t"
proof -
  from assms(1) obtain d1 d2 where
    t: "t = py_round (p * of_int (max (days_between d2 d1) 0)) 2"
    by (auto simp: compute_total_amount_def Let_def split: option.splits)
  have "0 \<le> p * of_int (max (days_between d2 d1) 0)"
    using assms(2) by simp
  then show ?thesis unfolding t by (rule py_round_nonneg)
qed

section \<open>Rows and the statements that write them\<close>

lemma find_SomeD: "find P xs = Some x \<Longrightarrow> x \<in> set xs \<and> P x"
  by (induction xs) (auto split: if_splits)

lemma find_map_rows: "find P (map f xs) = map_option f (find (\<lambda>x. P (f x)) xs)"
  by (induction xs) auto

lemma find_append_rows:
  "find P (xs @ ys) = (case find P xs of None \<Rightarrow> find P ys | Some x \<Rightarrow> Some x)"
  by (induction xs) auto

lemma select_room_SomeD:
  "select_room key db room_id = Some row \<Longrightarrow>
     row \<in> set (tbl_rooms db) \<and> key_of key room_id = Some (r_id row)"
  by (auto simp: select_room_def dest: find_SomeD)

lemma bookings_post_invalid_dates:
  "\<not> dates_accepted (form req ''check_in'') (form req ''check_out'') \<Longrightarrow>
     bookings_post key db req = (db, Redirect (Some Invalid_dates))"
  by (simp add: bookings_post_def Let_def)

lemma bookings_post_invalid_room:
  "dates_accepted (form req ''check_in'') (form req ''check_out'') \<Longrightarrow>
   select_room key db (form req ''room_id'') = None \<Longrightarrow>
     bookings_post key db req = (db, Redirect (Some Invalid_room))"
  by (simp add: bookings_post_def Let_def)

lemma insert_booking_no_guest:
  assumes "key_of key guest_id \<notin> Some ` set (map g_id (tbl_guests db))"
  shows "insert_booking key db room_id guest_id check_in check_out amount
           = Inl (if room_id = None \<or> guest_id = None \<or> check_in = None \<or> check_out = None
                  then NOT_NULL else FOREIGN_KEY)"
  using assms
  by (auto simp: insert_booking_def key_of_def split: option.splits)

lemma bookings_post_no_guest:
  assumes acc: "dates_accepted (form req ''check_in'') (form req ''check_out'')"
      and sel: "select_room key db (form req ''room_id'') = Some row"
      and ng: "key_of key (form req ''guest_id'') \<notin> Some ` set (map g_id (tbl_guests db))"
  shows "bookings_post key db req =
           (db, Raised (IntegrityError
                  (if form req ''guest_id'' = None then NOT_NULL else FOREIGN_KEY)))"
proof -
  from acc obtain d_in d_out where
    p: "strptime_date (form req ''check_in'') = Some d_in"
       "strptime_date (form req ''check_out'') = Some d_out" "date_gt d_out d_in"
    by (auto simp: dates_accepted_iff)
  then have ci: "form req ''check_in'' \<noteq> None" and co: "form req ''check_out'' \<noteq> None"
    by (auto dest: strptime_date_given)
  from sel have ri: "form req ''room_id'' \<noteq> None"
    by (auto dest!: select_room_SomeD simp: key_of_def split: option.splits)
  have amt: "compute_total_amount (r_price_per_night row) (form req ''check_in'')
               (form req ''check_out'')
             = Some (py_round (r_price_per_night row * of_int (days_between d_out d_in)) 2)"
    using p by (rule compute_total_amount_accepted)
  show ?thesis
    using acc sel amt ci co ri
    by (auto simp add: bookings_post_def Let_def insert_booking_no_guest [OF ng])
qed

lemma bookings_post_created:
  assumes p: "strptime_date (form req ''check_in'') = Some d_in"
       "strptime_date (form req ''check_out'') = Some d_out" "date_gt d_out d_in"
      and sel: "select_room key db (form req ''room_id'') = Some row"
      and g: "form req ''guest_id'' = Some gt" "key gt = Some gid"
             "gid \<in> set (map g_id (tbl_guests db))"
      and f: "form req ''check_in'' = Some ci" "form req ''check_out'' = Some co"
  shows "bookings_post key db req =
           (update_room_status key
              (db\<lparr>tbl_bookings := tbl_bookings db @
                     [\<lparr>b_id = seq_bookings db + 1, b_room_id = r_id row, b_guest_id = gid,
                       b_check_in = ci, b_check_out = co, b_status = Booked,
                       b_total_amount =
                         py_round (r_price_per_night row * of_int (days_between d_out d_in)) 2\<rparr>],
                   seq_bookings := seq_bookings db + 1\<rparr>)
              Occupied (form req ''room_id''),
            Redirect (Some Booking_created))"
proof -
  have acc: "dates_accepted (form req ''check_in'') (form req ''check_out'')"
    using p by (auto simp: dates_accepted_iff)
  have amt: "compute_total_amount (r_price_per_night row) (form req ''check_in'')
               (form req ''check_out'')
             = Some (py_round (r_price_per_night row * of_int (days_between d_out d_in)) 2)"
    using p by (rule compute_total_amount_accepted)
  from sel have row: "row \<in> set (tbl_rooms db)"
    and k: "key_of key (form req ''room_id'') = Some (r_id row)"
    by (auto dest: select_room_SomeD)
  from k obtain rt where rt: "form req ''room_id'' = Some rt" "key rt = Some (r_id row)"
    by (auto simp: key_of_def split: option.splits)
  have ins: "insert_booking key db (form req ''room_id'') (form req ''guest_id'')
               (form req ''check_in'') (form req ''check_out'') amount
             = Inr (db\<lparr>tbl_bookings := tbl_bookings db @
                     [\<lparr>b_id = seq_bookings db + 1, b_room_id = r_id row, b_guest_id = gid,
                       b_check_in = ci, b_check_out = co, b_status = Booked,
                       b_total_amount = amount\<rparr>],
                   seq_bookings := seq_bookings db + 1\<rparr>)" for amount
    using rt g f row by (simp add: insert_booking_def)
  show ?thesis
    using acc sel amt by (simp add: bookings_post_def Let_def ins)
qed

lemma bookings_post_createdE:
  assumes "bookings_post key db req = (db', Redirect (Some Booking_created))"
  obtains row gt gid ci co d_in d_out where
    "strptime_date (form req ''check_in'') = Some d_in"
    "strptime_date (form req ''check_out'') = Some d_out" "date_gt d_out d_in"
    "select_room key db (form req ''room_id'') = Some row"
    "form req ''guest_id'' = Some gt" "key gt = Some gid"
    "gid \<in> set (map g_id (tbl_guests db))"
    "form req ''check_in'' = Some ci" "form req ''check_out'' = Some co"
proof -
  have acc: "dates_accepted (form req ''check_in'') (form req ''check_out'')"
    using assms bookings_post_invalid_dates [of req key db] by (cases "dates_accepted (form req ''check_in'') (form req ''check_out'')") auto
  then obtain d_in d_out where
    p: "strptime_date (form req ''check_in'') = Some d_in"
       "strptime_date (form req ''check_out'') = Some d_out" "date_gt d_out d_in"
    by (auto simp: dates_accepted_iff)
  then obtain ci co where f: "form req ''check_in'' = Some ci" "form req ''check_out'' = Some co"
    by (blast dest: strptime_date_given)
  obtain row where sel: "select_room key db (form req ''room_id'') = Some row"
    using assms bookings_post_invalid_room [OF acc, of key db]
    by (cases "select_room key db (form req ''room_id'')") auto
  have "key_of key (form req ''guest_id'') \<in> Some ` set (map g_id (tbl_guests db))"
    using assms bookings_post_no_guest [OF acc sel] by (auto split: if_splits)
  then obtain gt gid where g: "form req ''guest_id'' = Some gt" "key gt = Some gid"
             "gid \<in> set (map g_id (tbl_guests db))"
    by (auto simp: key_of_def split: option.splits)
  show ?thesis by (rule that [OF p sel g f])
qed

lemma find_update_rows:
  assumes "\<And>r. k (u r) = k r"
  shows "find (\<lambda>r. k r = i) (map (\<lambda>r. if k r = i then u r else r) xs)
           = map_option u (find (\<lambda>r. k r = i) xs)"
  using assms by (induction xs) auto

lemma find_other_rows:
  assumes "\<And>r. k (u r) = k r" and "i \<noteq> j"
  shows "find (\<lambda>r. k r = i) (map (\<lambda>r. if k r = j then u r else r) xs)
           = find (\<lambda>r. k r = i) xs"
  using assms by (induction xs) auto

lemma find_present:
  "i \<in> set (map k xs) \<Longrightarrow> \<exists>r. find (\<lambda>r. k r = i) xs = Some r \<and> k r = i"
  by (induction xs) auto

lemma room_status_of_update_room_status:
  assumes "key_of key room_id = Some rid" and "rid \<in> set (map r_id (tbl_rooms db))"
  shows "room_status_of (update_room_status key db s room_id) rid = Some s"
proof -
  from find_present [OF assms(2)] obtain r where
    "find (\<lambda>r. r_id r = rid) (tbl_rooms db) = Some r" by blast
  then show ?thesis
    using assms(1)
    by (simp add: room_status_of_def update_room_status_def
          find_update_rows [where k = r_id and u = "\<lambda>r. r\<lparr>r_status := s\<rparr>"])
qed

section \<open>The example requests\<close>

lemma booking_form_fields:
  "form (booking_form r g ci co) ''room_id'' = Some r"
  "form (booking_form r g ci co) ''guest_id'' = Some g"
  "form (booking_form r g ci co) ''check_in'' = Some ci"
  "form (booking_form r g ci co) ''check_out'' = Some co"
  by (simp_all add: booking_form_def form_post_def)

lemma strptime_date_examples:
  "strptime_date (Some ''2024-01-01'') = Some \<lparr>year = 2024, month = 1, day = 1\<rparr>"
  "strptime_date (Some ''2024-01-03'') = Some \<lparr>year = 2024, month = 1, day = 3\<rparr>"
  "strptime_date (Some ''2024-02-30'') = None"
  by code_simp+

lemma key10_examples:
  "key10 ''1'' = Some 1" "key10 ''2'' = Some 2" "key10 ''3'' = Some 3" "key10 ''7'' = Some 7"
  "key10 ''9'' = Some 9"
  by code_simp+

lemma booked_db_created:
  "bookings_post key10 seeded_db (booking_form ''1'' ''1'' ''2024-01-01'' ''2024-01-03'')
     = (booked_db, Redirect (Some Booking_created))"
  by code_simp

section \<open>Creating a booking\<close>

text \<open>
  Claim C7. A createBooking call whose check-out date is not strictly after its check-in
  date, or one of whose dates strptime does not accept (a field that is missing
  included), fails with the message "Invalid dates", a validation error, and leaves the
  store as it was: no booking row is inserted and no room status is changed.
\<close>

theorem createBooking_invalid_dates:
  assumes "strptime_date (form req ''check_in'') = None
           \<or> strptime_date (form req ''check_out'') = None
           \<or> (\<exists>d_in d_out. strptime_date (form req ''check_in'') = Some d_in
                 \<and> strptime_date (form req ''check_out'') = Some d_out
                 \<and> \<not> date_gt d_out d_in)"
  shows "bookings_post key db req = (db, Redirect (Some Invalid_dates))
         \<and> failure_of (snd (bookings_post key db req)) = Some ValidationError"
proof -
  from assms have "\<not> dates_accepted (form req ''check_in'') (form req ''check_out'')"
    by (auto simp: dates_accepted_iff)
  then have "bookings_post key db req = (db, Redirect (Some Invalid_dates))"
    by (rule bookings_post_invalid_dates)
  then show ?thesis by simp
qed

theorem createBooking_invalid_dates_witness:
  "strptime_date (form (booking_form ''1'' ''1'' ''2024-01-03'' ''2024-01-01'') ''check_in'')
     = Some \<lparr>year = 2024, month = 1, day = 3\<rparr>
   \<and> strptime_date (form (booking_form ''1'' ''1'' ''2024-01-03'' ''2024-01-01'') ''check_out'')
     = Some \<lparr>year = 2024, month = 1, day = 1\<rparr>
   \<and> \<not> date_gt \<lparr>year = 2024, month = 1, day = 1\<rparr> \<lparr>year = 2024, month = 1, day = 3\<rparr>
   \<and> bookings_post key10 seeded_db (booking_form ''1'' ''1'' ''2024-01-03'' ''2024-01-01'')
     = (seeded_db, Redirect (Some Invalid_dates))"
  using createBooking_invalid_dates
          [of "booking_form ''1'' ''1'' ''2024-01-03'' ''2024-01-01''" key10 seeded_db]
  by (simp add: booking_form_fields strptime_date_examples date_gt_def)

text \<open>
  Claim C8. After a successful createBooking call (the response is the redirect with
  "Booking created") the room that the form names is Occupied, and the bookings table
  is the old one with one more row, for this room and with status Booked.
\<close>

theorem createBooking_success:
  assumes "bookings_post key db req = (db', Redirect (Some Booking_created))"
  shows "\<exists>rid b. key_of key (form req ''room_id'') = Some rid
           \<and> room_status_of db' rid = Some Occupied
           \<and> tbl_bookings db' = tbl_bookings db @ [b]
           \<and> b_room_id b = rid \<and> b_status b = Booked"
proof -
  from assms obtain row gt gid ci co d_in d_out where
    p: "strptime_date (form req ''check_in'') = Some d_in"
       "strptime_date (form req ''check_out'') = Some d_out" "date_gt d_out d_in"
    and sel: "select_room key db (form req ''room_id'') = Some row"
    and g: "form req ''guest_id'' = Some gt" "key gt = Some gid"
           "gid \<in> set (map g_id (tbl_guests db))"
    and f: "form req ''check_in'' = Some ci" "form req ''check_out'' = Some co"
    by (rule bookings_post_createdE)
  from sel have row: "r_id row \<in> set (map r_id (tbl_rooms db))"
    and k: "key_of key (form req ''room_id'') = Some (r_id row)"
    by (auto dest: select_room_SomeD)
  let ?b = "\<lparr>b_id = seq_bookings db + 1, b_room_id = r_id row, b_guest_id = gid,
             b_check_in = ci, b_check_out = co, b_status = Booked,
             b_total_amount =
               py_round (r_price_per_night row * of_int (days_between d_out d_in)) 2\<rparr>"
  let ?db1 = "db\<lparr>tbl_bookings := tbl_bookings db @ [?b], seq_bookings := seq_bookings db + 1\<rparr>"
  have db': "db' = update_room_status key ?db1 Occupied (form req ''room_id'')"
    using assms bookings_post_created [OF p sel g f] by simp
  have "room_status_of db' (r_id row) = Some Occupied"
    unfolding db' using k row by (intro room_status_of_update_room_status) simp_all
  moreover have "tbl_bookings db' = tbl_bookings db @ [?b]"
    unfolding db' by (simp add: update_room_status_def)
  ultimately show ?thesis using k by (intro exI [of _ "r_id row"] exI [of _ ?b]) simp
qed

theorem createBooking_success_witness:
  "bookings_post key10 seeded_db (booking_form ''1'' ''1'' ''2024-01-01'' ''2024-01-03'')
     = (booked_db, Redirect (Some Booking_created))
   \<and> room_status_of booked_db 1 = Some Occupied
   \<and> map b_status (tbl_bookings booked_db) = [Booked]"
proof -
  have c: "bookings_post key10 seeded_db (booking_form ''1'' ''1'' ''2024-01-01'' ''2024-01-03'')
     = (booked_db, Redirect (Some Booking_created))" by (rule booked_db_created)
  from createBooking_success [OF c] c show ?thesis
    by (auto simp add: booking_form_fields key_of_def key10_examples booked_db_def seeded_db_def)
qed




end
